theory Spec2Isabelle
  imports Complex_Main "HOL-Library.Sublist"
begin

section \<open>Python values\<close>

text \<open>
  The values that travel between the Modbus client and the meter drivers. A Python
  \<open>int\<close> is an \<open>int\<close>; a Python \<open>float\<close> is modelled by the rational it denotes
  (rounding, infinities and NaN are abstracted away); a Python list is a list.
  The drivers are dynamically typed: they apply their operators to whatever the client
  returned, so the operators below raise \<open>TypeError\<close> exactly where Python does.
\<close>

datatype pyval = PyInt int | PyFloat rat | PyList "pyval list"

datatype error = TransportError | TypeError | ZeroDivisionError

text \<open>The numeric value of a Python number; Python's \<open>==\<close> on numbers compares these.\<close>

fun py_num :: "pyval \<Rightarrow> rat option" where
  "py_num (PyInt i) = Some (of_int i)"
| "py_num (PyFloat r) = Some r"
| "py_num (PyList xs) = None"

fun py_eq :: "pyval \<Rightarrow> pyval \<Rightarrow> bool" where
  "py_eq (PyList xs) (PyList ys) = list_all2 py_eq xs ys"
| "py_eq (PyList xs) b = False"
| "py_eq a (PyList ys) = False"
| "py_eq a b = (py_num a = py_num b)"

text \<open>\<open>a + b\<close>.\<close>

fun py_add :: "pyval \<Rightarrow> pyval \<Rightarrow> error + pyval" where
  "py_add (PyInt a) (PyInt b) = Inr (PyInt (a + b))"
| "py_add (PyInt a) (PyFloat b) = Inr (PyFloat (of_int a + b))"
| "py_add (PyFloat a) (PyInt b) = Inr (PyFloat (a + of_int b))"
| "py_add (PyFloat a) (PyFloat b) = Inr (PyFloat (a + b))"
| "py_add (PyList a) (PyList b) = Inr (PyList (a @ b))"
| "py_add a b = Inl TypeError"

text \<open>The loop of the builtin \<open>sum\<close>: the accumulator starts at the int \<open>0\<close>.\<close>

fun sum_from :: "pyval \<Rightarrow> pyval list \<Rightarrow> error + pyval" where
  "sum_from acc [] = Inr acc"
| "sum_from acc (x # xs) =
     (case py_add acc x of Inl e \<Rightarrow> Inl e | Inr acc' \<Rightarrow> sum_from acc' xs)"

fun py_sum :: "pyval \<Rightarrow> error + pyval" where
  "py_sum (PyList xs) = sum_from (PyInt 0) xs"
| "py_sum v = Inl TypeError"

text \<open>\<open>v * n\<close>, \<open>v > n\<close> and \<open>v / n\<close> for an int literal \<open>n\<close>.\<close>

fun py_mul_int :: "pyval \<Rightarrow> int \<Rightarrow> error + pyval" where
  "py_mul_int (PyInt i) n = Inr (PyInt (i * n))"
| "py_mul_int (PyFloat r) n = Inr (PyFloat (r * of_int n))"
| "py_mul_int (PyList xs) n = Inr (PyList (concat (replicate (nat n) xs)))"

fun py_gt_int :: "pyval \<Rightarrow> int \<Rightarrow> error + bool" where
  "py_gt_int (PyInt i) n = Inr (i > n)"
| "py_gt_int (PyFloat r) n = Inr (r > of_int n)"
| "py_gt_int (PyList xs) n = Inl TypeError"

fun py_truediv_int :: "pyval \<Rightarrow> int \<Rightarrow> error + pyval" where
  "py_truediv_int (PyInt i) n =
     (if n = 0 then Inl ZeroDivisionError else Inr (PyFloat (of_int i / of_int n)))"
| "py_truediv_int (PyFloat r) n =
     (if n = 0 then Inl ZeroDivisionError else Inr (PyFloat (r / of_int n)))"
| "py_truediv_int (PyList xs) n = Inl TypeError"


section \<open>The world outside the drivers\<close>

datatype ModbusDataType = UINT_32 | FLOAT_32

text \<open>The \<open>types\<close> argument of a register read: one data type, or a list of them.\<close>

datatype types_arg = Single ModbusDataType | Multiple "ModbusDataType list"

text \<open>A register read: holding or input, with address, types and unit.\<close>

datatype access = Holding nat types_arg nat | Input nat types_arg nat

type_synonym FaultState = nat

text \<open>
  Modelled from the spec: a battery component (\<open>SunnyIslandBat\<close>, not among the
  sources). It owns a fault state; \<open>raises\<close> says whether its update fails in this
  cycle, and with which error.
\<close>

record SunnyIslandBat =
  fault_state :: FaultState
  raises :: "error option"

text \<open>
  \<open>CounterState\<close> as its constructor is called: one field per keyword argument, and
  \<open>None\<close> for a keyword the caller does not pass.
\<close>

record CounterState =
  imported :: pyval
  exported :: pyval
  power' :: pyval
  voltages :: "pyval option"
  currents :: pyval
  powers :: pyval
  power_factors :: "pyval option"
  frequency :: pyval
  serial_number :: string

text \<open>
  What the program does to its environment is kept as a trace, oldest event first.
  Times are values of \<open>time.time_ns()\<close>. \<open>LimiterArmed t\<close> records that the rate
  limiter stored \<open>t\<close> (in ms) in \<open>last_query\<close>.
\<close>

datatype event =
    SessionOpened
  | SessionClosed
  | RegisterRead int access
  | Slept int int
  | LimiterArmed rat
  | MeterValuesChecked CounterState FaultState
  | ComponentUpdated SunnyIslandBat

text \<open>What the bus answers to one read: how long the answer takes (ns) and what it is.\<close>

datatype reply = Reply int "error + pyval"

record world =
  time_ns :: int
  bus :: "reply list"
  trace :: "event list"
  faults :: "FaultState \<Rightarrow> error option"

definition emit :: "event \<Rightarrow> world \<Rightarrow> world" where
  "emit e w = w\<lparr>trace := trace w @ [e]\<rparr>"

text \<open>
  \<open>time.sleep(secs)\<close>: the caller is suspended for \<open>secs\<close> seconds, rounded up to the
  resolution of the clock. The source only sleeps for a positive time.
\<close>

definition time_sleep :: "rat \<Rightarrow> world \<Rightarrow> world" where
  "time_sleep secs w =
     (let d = \<lceil>secs * 1000000000\<rceil>
      in (emit (Slept (time_ns w) d) w)\<lparr>time_ns := time_ns w + d\<rparr>)"

text \<open>
  Modelled from the spec: the Modbus client (\<open>modules.common.modbus\<close>, not among the
  sources). A read is one blocking request: it is issued now, takes the time the bus
  takes, and returns the decoded value or raises. A bus with no answer left raises.
\<close>

definition client_read :: "access \<Rightarrow> world \<Rightarrow> (error + pyval) \<times> world" where
  "client_read a w =
     (case bus w of
        [] \<Rightarrow> (Inl TransportError, emit (RegisterRead (time_ns w) a) w)
      | Reply latency outcome # rest \<Rightarrow>
          (outcome, (emit (RegisterRead (time_ns w) a) w)\<lparr>bus := rest, time_ns := time_ns w + latency\<rparr>))"

definition read_input_registers :: "nat \<Rightarrow> types_arg \<Rightarrow> nat \<Rightarrow> world \<Rightarrow> (error + pyval) \<times> world" where
  "read_input_registers address types unit w = client_read (Input address types unit) w"

definition read_holding_registers :: "nat \<Rightarrow> types_arg \<Rightarrow> nat \<Rightarrow> world \<Rightarrow> (error + pyval) \<times> world" where
  "read_holding_registers address types unit w = client_read (Holding address types unit) w"

text \<open>
  Modelled from the spec: \<open>with client:\<close>, the scoped session of the Modbus client.
  The session is opened on entry and closed on every exit; an error raised inside is
  passed on after the session has been closed.
\<close>

definition with_client :: "(world \<Rightarrow> (error + 'a) \<times> world) \<Rightarrow> world \<Rightarrow> (error + 'a) \<times> world" where
  "with_client body w =
     (let (r, w) = body (emit SessionOpened w)
      in (r, emit SessionClosed w))"

text \<open>
  Modelled from the spec: \<open>check_meter_values\<close> (\<open>modules.common.hardware_check\<close>, not
  among the sources), the fault sink. Its rules are not part of this core; the call is
  recorded with its two arguments.
\<close>

definition check_meter_values :: "CounterState \<Rightarrow> FaultState \<Rightarrow> world \<Rightarrow> world" where
  "check_meter_values counter_state fs w =
     emit (MeterValuesChecked counter_state fs) w"


section \<open>sdm.py: the meter drivers\<close>

text \<open>
  The fields of an \<open>Sdm\<close> object. \<open>self.id\<close> is \<open>id'\<close> here; \<open>self.client\<close> is the
  one client of the world. A method takes the object and the world and returns both.
\<close>

record Sdm =
  id' :: nat
  last_query :: rat
  WAIT_MS_BETWEEN_QUERIES :: rat
  serial_number :: string

record Sdm630_72 = Sdm +
  fault_state :: FaultState

record Sdm120 = Sdm +
  fault_state :: FaultState

text \<open>Sequencing of two steps of a method: an error of the first ends the method.\<close>

definition and_then ::
  "('s \<Rightarrow> (error + 'a) \<times> 's) \<Rightarrow> ('a \<Rightarrow> 's \<Rightarrow> (error + 'b) \<times> 's) \<Rightarrow> 's \<Rightarrow> (error + 'b) \<times> 's" where
  "and_then m f s = (case m s of (Inl e, s') \<Rightarrow> (Inl e, s') | (Inr x, s') \<Rightarrow> f x s')"

definition get_time_ms :: "world \<Rightarrow> rat" where
  "get_time_ms w = of_int (time_ns w) / 1000000"

text \<open>
  \<open>Sdm.__init__\<close>. The builtin \<open>str\<close> is a parameter: how Python prints a value is not
  part of the model.
\<close>

definition Sdm_init :: "(pyval \<Rightarrow> string) \<Rightarrow> nat \<Rightarrow> world \<Rightarrow> (error + Sdm) \<times> world" where
  "Sdm_init str modbus_id w =
     (let now = get_time_ms w
      in with_client (\<lambda>w.
           let (r, w) = read_holding_registers 0xFC00 (Single UINT_32) modbus_id w
           in (case r of
                 Inl e \<Rightarrow> Inl e
               | Inr v \<Rightarrow> Inr \<lparr>id' = modbus_id, last_query = now,
                             WAIT_MS_BETWEEN_QUERIES = 100, serial_number = str v\<rparr>,
               w)) w)"

text \<open>
  \<open>_ensure_min_time_between_queries\<close>. The comment above it in the source: "These
  meters require some minimum time between subsequent Modbus reads. Some Eastron papers
  recommend 100 ms. Sometimes the time between calls to the get_* methods are much
  shorter so we forcibly wait for the remaining time." The last line of the method
  stores \<open>current_time\<close>, the time that was read before the sleep.
\<close>

fun ensure_min_time_between_queries :: "'m Sdm_scheme \<times> world \<Rightarrow> 'm Sdm_scheme \<times> world" where
  "ensure_min_time_between_queries (self, w) =
     (let current_time = get_time_ms w;
          elapsed_time = current_time - last_query self;
          w = (if elapsed_time < WAIT_MS_BETWEEN_QUERIES self
               then time_sleep ((WAIT_MS_BETWEEN_QUERIES self - elapsed_time) / 1000) w
               else w)
      in (self\<lparr>last_query := current_time\<rparr>, emit (LimiterArmed current_time) w))"

fun get_imported :: "'m Sdm_scheme \<times> world \<Rightarrow> (error + pyval) \<times> 'm Sdm_scheme \<times> world" where
  "get_imported (self, w) =
     (let (self, w) = ensure_min_time_between_queries (self, w);
          (r, w) = read_input_registers 0x0048 (Single FLOAT_32) (id' self) w
      in (case r of Inl e \<Rightarrow> Inl e | Inr v \<Rightarrow> py_mul_int v 1000, self, w))"

fun get_exported :: "'m Sdm_scheme \<times> world \<Rightarrow> (error + pyval) \<times> 'm Sdm_scheme \<times> world" where
  "get_exported (self, w) =
     (let (self, w) = ensure_min_time_between_queries (self, w);
          (r, w) = read_input_registers 0x004a (Single FLOAT_32) (id' self) w
      in (case r of Inl e \<Rightarrow> Inl e | Inr v \<Rightarrow> py_mul_int v 1000, self, w))"

fun get_frequency :: "'m Sdm_scheme \<times> world \<Rightarrow> (error + pyval) \<times> 'm Sdm_scheme \<times> world" where
  "get_frequency (self, w) =
     (let (self, w) = ensure_min_time_between_queries (self, w);
          (r, w) = read_input_registers 0x46 (Single FLOAT_32) (id' self) w
      in (case r of
            Inl e \<Rightarrow> Inl e
          | Inr freq \<Rightarrow>
              (case py_gt_int freq 100 of
                 Inl e \<Rightarrow> Inl e
               | Inr True \<Rightarrow> py_truediv_int freq 10
               | Inr False \<Rightarrow> Inr freq),
          self, w))"

fun get_serial_number :: "'m Sdm_scheme \<times> world \<Rightarrow> (error + string) \<times> 'm Sdm_scheme \<times> world" where
  "get_serial_number (self, w) = (Inr (Sdm.serial_number self), self, w)"

subsection \<open>The three-phase variant\<close>

definition Sdm630_72_init ::
  "(pyval \<Rightarrow> string) \<Rightarrow> nat \<Rightarrow> FaultState \<Rightarrow> world \<Rightarrow> (error + Sdm630_72) \<times> world" where
  "Sdm630_72_init str modbus_id fs w =
     (case Sdm_init str modbus_id w of
        (Inl e, w) \<Rightarrow> (Inl e, w)
      | (Inr self, w) \<Rightarrow> (Inr (Sdm.extend self (Sdm630_72.fields fs)), w))"

fun Sdm630_72_get_currents :: "Sdm630_72 \<times> world \<Rightarrow> (error + pyval) \<times> Sdm630_72 \<times> world" where
  "Sdm630_72_get_currents (self, w) =
     (let (self, w) = ensure_min_time_between_queries (self, w);
          (r, w) = read_input_registers 0x06 (Multiple (replicate 3 FLOAT_32)) (id' self) w
      in (r, self, w))"

fun Sdm630_72_get_power_factors :: "Sdm630_72 \<times> world \<Rightarrow> (error + pyval) \<times> Sdm630_72 \<times> world" where
  "Sdm630_72_get_power_factors (self, w) =
     (let (self, w) = ensure_min_time_between_queries (self, w);
          (r, w) = read_input_registers 0x1E (Multiple (replicate 3 FLOAT_32)) (id' self) w
      in (r, self, w))"

fun Sdm630_72_get_power :: "Sdm630_72 \<times> world \<Rightarrow> (error + pyval \<times> pyval) \<times> Sdm630_72 \<times> world" where
  "Sdm630_72_get_power (self, w) =
     (let (self, w) = ensure_min_time_between_queries (self, w);
          (r, w) = read_input_registers 0x0C (Multiple (replicate 3 FLOAT_32)) (id' self) w
      in (case r of
            Inl e \<Rightarrow> Inl e
          | Inr pwrs \<Rightarrow>
              (case py_sum pwrs of Inl e \<Rightarrow> Inl e | Inr pwr \<Rightarrow> Inr (pwrs, pwr)),
          self, w))"

fun Sdm630_72_get_voltages :: "Sdm630_72 \<times> world \<Rightarrow> (error + pyval) \<times> Sdm630_72 \<times> world" where
  "Sdm630_72_get_voltages (self, w) =
     (let (self, w) = ensure_min_time_between_queries (self, w);
          (r, w) = read_input_registers 0x00 (Multiple (replicate 3 FLOAT_32)) (id' self) w
      in (r, self, w))"

definition Sdm630_72_get_counter_state ::
  "Sdm630_72 \<times> world \<Rightarrow> (error + CounterState) \<times> Sdm630_72 \<times> world" where
  "Sdm630_72_get_counter_state =
     and_then Sdm630_72_get_power (\<lambda>(powers, power).
     and_then get_imported (\<lambda>imported.
     and_then get_exported (\<lambda>exported.
     and_then Sdm630_72_get_voltages (\<lambda>voltages.
     and_then Sdm630_72_get_currents (\<lambda>currents.
     and_then Sdm630_72_get_power_factors (\<lambda>power_factors.
     and_then get_frequency (\<lambda>frequency.
     and_then get_serial_number (\<lambda>serial_number. \<lambda>(self, w).
       let counter_state =
             \<lparr>imported = imported, exported = exported, power' = power,
              voltages = Some voltages, currents = currents, powers = powers,
              power_factors = Some power_factors, frequency = frequency,
              CounterState.serial_number = serial_number\<rparr>
       in (Inr counter_state, self,
           check_meter_values counter_state (Sdm630_72.fault_state self) w)))))))))"

subsection \<open>The single-phase variant\<close>

definition Sdm120_init ::
  "(pyval \<Rightarrow> string) \<Rightarrow> nat \<Rightarrow> FaultState \<Rightarrow> world \<Rightarrow> (error + Sdm120) \<times> world" where
  "Sdm120_init str modbus_id fs w =
     (case Sdm_init str modbus_id w of
        (Inl e, w) \<Rightarrow> (Inl e, w)
      | (Inr self, w) \<Rightarrow> (Inr (Sdm.extend self (Sdm120.fields fs)), w))"

fun Sdm120_get_power :: "Sdm120 \<times> world \<Rightarrow> (error + pyval \<times> pyval) \<times> Sdm120 \<times> world" where
  "Sdm120_get_power (self, w) =
     (let (self, w) = ensure_min_time_between_queries (self, w);
          (r, w) = read_input_registers 0x0C (Single FLOAT_32) (id' self) w
      in (case r of
            Inl e \<Rightarrow> Inl e
          | Inr pwr \<Rightarrow> Inr (PyList [pwr, PyInt 0, PyInt 0], pwr),
          self, w))"

fun Sdm120_get_currents :: "Sdm120 \<times> world \<Rightarrow> (error + pyval) \<times> Sdm120 \<times> world" where
  "Sdm120_get_currents (self, w) =
     (let (self, w) = ensure_min_time_between_queries (self, w);
          (r, w) = read_input_registers 0x06 (Single FLOAT_32) (id' self) w
      in (case r of Inl e \<Rightarrow> Inl e | Inr v \<Rightarrow> Inr (PyList [v, PyFloat 0, PyFloat 0]), self, w))"

fun Sdm120_get_voltages :: "Sdm120 \<times> world \<Rightarrow> (error + pyval) \<times> Sdm120 \<times> world" where
  "Sdm120_get_voltages (self, w) =
     (let (self, w) = ensure_min_time_between_queries (self, w);
          (r, w) = read_input_registers 0x00 (Single FLOAT_32) (id' self) w
      in (case r of
            Inl e \<Rightarrow> Inl e
          | Inr voltage \<Rightarrow> Inr (PyList [voltage, PyFloat 0, PyFloat 0]),
          self, w))"

fun Sdm120_get_power_factors :: "Sdm120 \<times> world \<Rightarrow> (error + pyval) \<times> Sdm120 \<times> world" where
  "Sdm120_get_power_factors (self, w) =
     (let (self, w) = ensure_min_time_between_queries (self, w);
          (r, w) = read_input_registers 0x1E (Single FLOAT_32) (id' self) w
      in (case r of Inl e \<Rightarrow> Inl e | Inr v \<Rightarrow> Inr (PyList [v, PyFloat 0, PyFloat 0]), self, w))"

definition Sdm120_get_counter_state ::
  "Sdm120 \<times> world \<Rightarrow> (error + CounterState) \<times> Sdm120 \<times> world" where
  "Sdm120_get_counter_state =
     and_then Sdm120_get_power (\<lambda>(powers, power).
     and_then get_imported (\<lambda>imported.
     and_then get_exported (\<lambda>exported.
     and_then Sdm120_get_currents (\<lambda>currents.
     and_then get_frequency (\<lambda>frequency.
     and_then get_serial_number (\<lambda>serial_number. \<lambda>(self, w).
       let counter_state =
             \<lparr>imported = imported, exported = exported, power' = power,
              voltages = None, currents = currents, powers = powers,
              power_factors = None, frequency = frequency,
              CounterState.serial_number = serial_number\<rparr>
       in (Inr counter_state, self,
           check_meter_values counter_state (Sdm120.fault_state self) w)))))))"


section \<open>device.py: the Sunny Island device\<close>

text \<open>
  The closure variable \<open>client\<close> of \<open>create_device\<close>: \<open>None\<close> until \<open>initializer\<close> has
  run, then the client made from the configured address and port.
\<close>

type_synonym ModbusTcpClient = "string \<times> nat"

definition initializer :: "string \<Rightarrow> nat \<Rightarrow> ModbusTcpClient option \<Rightarrow> ModbusTcpClient option" where
  "initializer ip_address port client = Some (ip_address, port)"

text \<open>
  Modelled from the spec: \<open>component.update()\<close> (\<open>SunnyIslandBat.update\<close>, not among the
  sources). The update runs, and completes or raises.
\<close>

definition SunnyIslandBat_update :: "SunnyIslandBat \<Rightarrow> world \<Rightarrow> (error + unit) \<times> world" where
  "SunnyIslandBat_update component w =
     (case raises component of None \<Rightarrow> Inr () | Some e \<Rightarrow> Inl e,
      emit (ComponentUpdated component) w)"

text \<open>
  Modelled from the spec: \<open>SingleComponentUpdateContext\<close>
  (\<open>modules.common.component_context\<close>, not among the sources), the failure boundary
  of one component. An error raised inside is caught and recorded against the given
  fault state; a body that completes leaves the fault state without error. Nothing is
  raised to the caller.
\<close>

definition SingleComponentUpdateContext ::
  "FaultState \<Rightarrow> (world \<Rightarrow> (error + unit) \<times> world) \<Rightarrow> world \<Rightarrow> (error + unit) \<times> world" where
  "SingleComponentUpdateContext fs body w =
     (case body w of
        (Inl e, w) \<Rightarrow> (Inr (), w\<lparr>faults := (faults w)(fs := Some e)\<rparr>)
      | (Inr u, w) \<Rightarrow> (Inr (), w\<lparr>faults := (faults w)(fs := None)\<rparr>))"

text \<open>The \<open>for\<close> loop of \<open>update_components\<close>.\<close>

fun update_each :: "SunnyIslandBat list \<Rightarrow> world \<Rightarrow> (error + unit) \<times> world" where
  "update_each [] w = (Inr (), w)"
| "update_each (component # components) w =
     (case SingleComponentUpdateContext (SunnyIslandBat.fault_state component)
             (SunnyIslandBat_update component) w of
        (Inl e, w) \<Rightarrow> (Inl e, w)
      | (Inr u, w) \<Rightarrow> update_each components w)"

text \<open>\<open>update_components\<close>; \<open>with None:\<close> raises before anything is opened.\<close>

definition update_components ::
  "ModbusTcpClient option \<Rightarrow> SunnyIslandBat list \<Rightarrow> world \<Rightarrow> (error + unit) \<times> world" where
  "update_components client components w =
     (case client of
        None \<Rightarrow> (Inl TypeError, w)
      | Some c \<Rightarrow> with_client (update_each components) w)"


section \<open>Observing a run\<close>

text \<open>
  The untimed view of the trace: what was done, without the times. Sleeping and the
  update of a component are not part of it.
\<close>

datatype action = Open | Close | Arm | Read access | Check

fun action_of :: "event \<Rightarrow> action list" where
  "action_of SessionOpened = [Open]"
| "action_of SessionClosed = [Close]"
| "action_of (RegisterRead t a) = [Read a]"
| "action_of (Slept t d) = []"
| "action_of (LimiterArmed t) = [Arm]"
| "action_of (MeterValuesChecked cs fs) = [Check]"
| "action_of (ComponentUpdated c) = []"

definition actions :: "event list \<Rightarrow> action list" where
  "actions evs = concat (map action_of evs)"

text \<open>The events of a run that took the world from \<open>w\<close> to \<open>w'\<close>.\<close>

definition new_events :: "world \<Rightarrow> world \<Rightarrow> event list" where
  "new_events w w' = drop (length (trace w)) (trace w')"

text \<open>The times (ns) at which the register reads of a trace were issued, and their gaps.\<close>

fun read_times :: "event list \<Rightarrow> int list" where
  "read_times [] = []"
| "read_times (RegisterRead t a # evs) = t # read_times evs"
| "read_times (e # evs) = read_times evs"

fun gaps :: "int list \<Rightarrow> int list" where
  "gaps (s # t # ts) = (t - s) # gaps (t # ts)"
| "gaps ts = []"

text \<open>
  \<open>performs m acts\<close>: the method \<open>m\<close> changes nothing of the object but \<open>last_query\<close>,
  only adds to the trace, and what it adds is \<open>acts\<close> when it returns and a prefix of
  \<open>acts\<close> when it raises.
\<close>

definition performs ::
  "('m Sdm_scheme \<times> world \<Rightarrow> (error + 'a) \<times> 'm Sdm_scheme \<times> world) \<Rightarrow> (nat \<Rightarrow> action list) \<Rightarrow> bool" where
  "performs m acts \<longleftrightarrow>
     (\<forall>self w r self' w'. m (self, w) = (r, self', w') \<longrightarrow>
        self' = self\<lparr>last_query := last_query self'\<rparr> \<and>
        (\<exists>evs. trace w' = trace w @ evs \<and>
           (case r of Inr x \<Rightarrow> actions evs = acts (id' self)
                    | Inl e \<Rightarrow> prefix (actions evs) (acts (id' self)))))"

subsection \<open>Example runs\<close>

text \<open>A world at time 0 with nothing recorded and the given answers waiting on the bus.\<close>

definition start_world :: "reply list \<Rightarrow> world" where
  "start_world replies = \<lparr>time_ns = 0, bus = replies, trace = [], faults = (\<lambda>fs. None)\<rparr>"

text \<open>
  A bus that answers every read after 10 ms: the serial number, then the seven values of
  a three-phase snapshot in the order they are asked for.
\<close>

definition three_phase_bus :: "reply list" where
  "three_phase_bus =
     [Reply 10000000 (Inr (PyInt 4711)),
      Reply 10000000 (Inr (PyList [PyFloat 100, PyFloat 150, PyFloat 120])),
      Reply 10000000 (Inr (PyFloat (3/2))),
      Reply 10000000 (Inr (PyFloat (1/2))),
      Reply 10000000 (Inr (PyList [PyFloat 230, PyFloat 231, PyFloat 229])),
      Reply 10000000 (Inr (PyList [PyFloat 1, PyFloat 2, PyFloat 3])),
      Reply 10000000 (Inr (PyList [PyFloat 1, PyFloat 1, PyFloat 1])),
      Reply 10000000 (Inr (PyFloat 50))]"

definition single_phase_bus :: "reply list" where
  "single_phase_bus =
     [Reply 10000000 (Inr (PyFloat 370)),
      Reply 10000000 (Inr (PyFloat (3/2))),
      Reply 10000000 (Inr (PyFloat (1/2))),
      Reply 10000000 (Inr (PyFloat 2)),
      Reply 10000000 (Inr (PyFloat 50))]"



definition three_phase_meter :: Sdm630_72 where
  "three_phase_meter =
     \<lparr>id' = 1, last_query = 0, WAIT_MS_BETWEEN_QUERIES = 100, serial_number = ''4711'',
      Sdm630_72.fault_state = 7\<rparr>"

definition single_phase_meter :: Sdm120 where
  "single_phase_meter =
     \<lparr>id' = 1, last_query = 0, WAIT_MS_BETWEEN_QUERIES = 100, serial_number = ''4711'',
      Sdm120.fault_state = 7\<rparr>"

definition three_phase_snapshot :: CounterState where
  "three_phase_snapshot =
     \<lparr>imported = PyFloat 1500, exported = PyFloat 500, power' = PyFloat 370,
      voltages = Some (PyList [PyFloat 230, PyFloat 231, PyFloat 229]),
      currents = PyList [PyFloat 1, PyFloat 2, PyFloat 3],
      powers = PyList [PyFloat 100, PyFloat 150, PyFloat 120],
      power_factors = Some (PyList [PyFloat 1, PyFloat 1, PyFloat 1]),
      frequency = PyFloat 50, CounterState.serial_number = ''4711''\<rparr>"

definition single_phase_snapshot :: CounterState where
  "single_phase_snapshot =
     \<lparr>imported = PyFloat 1500, exported = PyFloat 500, power' = PyFloat 370,
      voltages = None,
      currents = PyList [PyFloat 2, PyFloat 0, PyFloat 0],
      powers = PyList [PyFloat 370, PyInt 0, PyInt 0],
      power_factors = None, frequency = PyFloat 50,
      CounterState.serial_number = ''4711''\<rparr>"

text \<open>One poll of a fresh three-phase meter: construct the driver, then take a snapshot.\<close>

definition poll_three_phase :: "world \<Rightarrow> (error + CounterState) \<times> world" where
  "poll_three_phase w =
     (case Sdm630_72_init (\<lambda>v. ''4711'') 1 7 w of
        (Inl e, w) \<Rightarrow> (Inl e, w)
      | (Inr self, w) \<Rightarrow>
          (case Sdm630_72_get_counter_state (self, w) of (r, self, w) \<Rightarrow> (r, w)))"

definition failing_bat :: SunnyIslandBat where
  "failing_bat = \<lparr>SunnyIslandBat.fault_state = 1, raises = Some TransportError\<rparr>"

definition working_bat :: SunnyIslandBat where
  "working_bat = \<lparr>SunnyIslandBat.fault_state = 2, raises = None\<rparr>"


section \<open>What a method adds to the trace\<close>

lemmas run_simps = Sdm630_72_init_def Sdm120_init_def Sdm_init_def with_client_def
  read_holding_registers_def read_input_registers_def client_read_def emit_def time_sleep_def
  get_time_ms_def Sdm630_72_get_counter_state_def Sdm120_get_counter_state_def and_then_def
  check_meter_values_def Sdm.extend_def Sdm630_72.fields_def Sdm120.fields_def Let_def

lemma actions_append [simp]: "actions (xs @ ys) = actions xs @ actions ys"
  by (simp add: actions_def)

lemma actions_Nil [simp]: "actions [] = []"
  by (simp add: actions_def)

lemma actions_Cons [simp]: "actions (e # es) = action_of e @ actions es"
  by (simp add: actions_def)

lemma new_events_append: "trace w' = trace w @ evs \<Longrightarrow> new_events w w' = evs"
  by (simp add: new_events_def)

lemma performsD:
  assumes "performs m acts" and "m (self, w) = (r, self', w')"
  shows "self' = self\<lparr>last_query := last_query self'\<rparr>"
    and "\<exists>evs. trace w' = trace w @ evs \<and>
           (case r of Inr x \<Rightarrow> actions evs = acts (id' self)
                    | Inl e \<Rightarrow> prefix (actions evs) (acts (id' self)))"
  using assms unfolding performs_def by blast+

lemma performsI:
  assumes "\<And>self w r self' w'. m (self, w) = (r, self', w') \<Longrightarrow>
        self' = self\<lparr>last_query := last_query self'\<rparr> \<and>
        (\<exists>evs. trace w' = trace w @ evs \<and>
           (case r of Inr x \<Rightarrow> actions evs = acts (id' self)
                    | Inl e \<Rightarrow> prefix (actions evs) (acts (id' self))))"
  shows "performs m acts"
  using assms unfolding performs_def by blast

text \<open>The rate limiter stores the time it read on entry, and leaves the bus alone.\<close>

lemma ensure_effect:
  "ensure_min_time_between_queries (self, w) = (self', w') \<Longrightarrow>
     self' = self\<lparr>last_query := get_time_ms w\<rparr> \<and> bus w' = bus w \<and>
     (\<exists>evs. trace w' = trace w @ evs \<and> actions evs = [Arm])"
  by (auto simp: Let_def emit_def time_sleep_def split: if_splits)

text \<open>When it returns: at once, or after the missing part of the interval.\<close>

lemma ensure_returns_at:
  "time_ns (snd (ensure_min_time_between_queries (self, w))) =
     (if get_time_ms w - last_query self < WAIT_MS_BETWEEN_QUERIES self
      then time_ns w +
        \<lceil>(WAIT_MS_BETWEEN_QUERIES self - (get_time_ms w - last_query self)) / 1000 * 1000000000\<rceil>
      else time_ns w)"
  by (simp add: Let_def emit_def time_sleep_def)

lemma client_read_effect:
  "client_read a w = (r, w') \<Longrightarrow> trace w' = trace w @ [RegisterRead (time_ns w) a]"
  by (auto simp: client_read_def emit_def split: list.splits reply.splits)

lemma read_input_effect:
  "read_input_registers ad ty u w = (r, w') \<Longrightarrow>
     trace w' = trace w @ [RegisterRead (time_ns w) (Input ad ty u)]"
  by (simp add: read_input_registers_def client_read_effect)

lemma limited_read:
  assumes e: "ensure_min_time_between_queries (self, w) = (s1, w1)"
    and r: "read_input_registers ad ty (id' s1) w1 = (r, w')"
  shows "s1 = self\<lparr>last_query := last_query s1\<rparr>"
    "\<exists>evs. trace w' = trace w @ evs \<and> actions evs = [Arm, Read (Input ad ty (id' self))]"
proof -
  from ensure_effect[OF e] obtain evs where
    s: "s1 = self\<lparr>last_query := get_time_ms w\<rparr>" and t: "trace w1 = trace w @ evs"
    and a: "actions evs = [Arm]"
    by blast
  from s show "s1 = self\<lparr>last_query := last_query s1\<rparr>" by simp
  from s have i: "id' s1 = id' self" by simp
  from read_input_effect[OF r] t a i
  show "\<exists>evs. trace w' = trace w @ evs \<and> actions evs = [Arm, Read (Input ad ty (id' self))]"
    by (intro exI[of _ "evs @ [RegisterRead (time_ns w1) (Input ad ty (id' self))]"]) simp
qed

text \<open>Every accessor has one shape: arm the limiter, read once, work on the result.\<close>

lemma performs_limited_read:
  assumes m: "\<And>self w. m (self, w) =
     (let (s1, w1) = ensure_min_time_between_queries (self, w);
          (r, w2) = read_input_registers ad ty (id' s1) w1
      in (g r, s1, w2))"
  shows "performs m (\<lambda>u. [Arm, Read (Input ad ty u)])"
proof (rule performsI)
  fix self :: "'a Sdm_scheme" and w r self' w'
  assume run: "m (self, w) = (r, self', w')"
  obtain s1 w1 where e: "ensure_min_time_between_queries (self, w) = (s1, w1)"
    by (cases "ensure_min_time_between_queries (self, w)")
  obtain r1 w2 where rd: "read_input_registers ad ty (id' s1) w1 = (r1, w2)"
    by (cases "read_input_registers ad ty (id' s1) w1")
  from run e rd have "self' = s1" "w' = w2" unfolding m by simp_all
  with limited_read[OF e rd]
  show "self' = self\<lparr>last_query := last_query self'\<rparr> \<and>
        (\<exists>evs. trace w' = trace w @ evs \<and>
           (case r of Inr x \<Rightarrow> actions evs = [Arm, Read (Input ad ty (id' self))]
                    | Inl e \<Rightarrow> prefix (actions evs) [Arm, Read (Input ad ty (id' self))]))"
    by (cases r) auto
qed

lemma performs_get_imported:
  "performs get_imported (\<lambda>u. [Arm, Read (Input 0x0048 (Single FLOAT_32) u)])"
  by (rule performs_limited_read) (simp del: ensure_min_time_between_queries.simps)

lemma performs_get_exported:
  "performs get_exported (\<lambda>u. [Arm, Read (Input 0x004a (Single FLOAT_32) u)])"
  by (rule performs_limited_read) (simp del: ensure_min_time_between_queries.simps)

lemma performs_get_frequency:
  "performs get_frequency (\<lambda>u. [Arm, Read (Input 0x46 (Single FLOAT_32) u)])"
  by (rule performs_limited_read) (simp del: ensure_min_time_between_queries.simps)

lemma performs_Sdm630_72_get_power:
  "performs Sdm630_72_get_power (\<lambda>u. [Arm, Read (Input 0x0C (Multiple (replicate 3 FLOAT_32)) u)])"
  by (rule performs_limited_read) (simp del: ensure_min_time_between_queries.simps)

lemma performs_Sdm630_72_get_voltages:
  "performs Sdm630_72_get_voltages (\<lambda>u. [Arm, Read (Input 0x00 (Multiple (replicate 3 FLOAT_32)) u)])"
  by (rule performs_limited_read[where g = "\<lambda>r. r"])
    (simp del: ensure_min_time_between_queries.simps)

lemma performs_Sdm630_72_get_currents:
  "performs Sdm630_72_get_currents (\<lambda>u. [Arm, Read (Input 0x06 (Multiple (replicate 3 FLOAT_32)) u)])"
  by (rule performs_limited_read[where g = "\<lambda>r. r"])
    (simp del: ensure_min_time_between_queries.simps)

lemma performs_Sdm630_72_get_power_factors:
  "performs Sdm630_72_get_power_factors
     (\<lambda>u. [Arm, Read (Input 0x1E (Multiple (replicate 3 FLOAT_32)) u)])"
  by (rule performs_limited_read[where g = "\<lambda>r. r"])
    (simp del: ensure_min_time_between_queries.simps)

lemma performs_Sdm120_get_power:
  "performs Sdm120_get_power (\<lambda>u. [Arm, Read (Input 0x0C (Single FLOAT_32) u)])"
  by (rule performs_limited_read) (simp del: ensure_min_time_between_queries.simps)

lemma performs_Sdm120_get_currents:
  "performs Sdm120_get_currents (\<lambda>u. [Arm, Read (Input 0x06 (Single FLOAT_32) u)])"
  by (rule performs_limited_read) (simp del: ensure_min_time_between_queries.simps)

lemma performs_get_serial_number: "performs get_serial_number (\<lambda>u. [])"
  by (rule performsI) auto

lemma performs_check:
  "performs (\<lambda>(self, w). let cs = c self in (Inr cs, self, check_meter_values cs (fsf self) w))
     (\<lambda>u. [Check])"
  by (rule performsI) (auto simp: Let_def check_meter_values_def emit_def)

lemma performs_case_prod:
  "(\<And>a b. performs (f a b) acts) \<Longrightarrow> performs (case x of (a, b) \<Rightarrow> f a b) acts"
  by (cases x) simp

lemma performs_and_then:
  assumes "performs m a" and "\<And>x. performs (f x) b"
  shows "performs (and_then m f) (\<lambda>u. a u @ b u)"
proof (rule performsI)
  fix self w r' self' w'
  assume run: "and_then m f (self, w) = (r', self', w')"
  obtain r s1 w1 where m: "m (self, w) = (r, s1, w1)" by (cases "m (self, w)") auto
  from performsD[OF assms(1) m] obtain evs1 where
    s1: "s1 = self\<lparr>last_query := last_query s1\<rparr>" and t1: "trace w1 = trace w @ evs1"
    and a1: "case r of Inr x \<Rightarrow> actions evs1 = a (id' self)
             | Inl e \<Rightarrow> prefix (actions evs1) (a (id' self))"
    by blast
  show "self' = self\<lparr>last_query := last_query self'\<rparr> \<and>
        (\<exists>evs. trace w' = trace w @ evs \<and>
           (case r' of Inr x \<Rightarrow> actions evs = a (id' self) @ b (id' self)
                    | Inl e \<Rightarrow> prefix (actions evs) (a (id' self) @ b (id' self))))"
  proof (cases r)
    case (Inl e)
    with m run have "r' = Inl e" "self' = s1" "w' = w1" by (simp_all add: and_then_def)
    with s1 t1 a1 Inl show ?thesis by auto
  next
    case (Inr x)
    with m run have f: "f x (s1, w1) = (r', self', w')" by (simp add: and_then_def)
    from performsD[OF assms(2)[of x] f] obtain evs2 where
      s2: "self' = s1\<lparr>last_query := last_query self'\<rparr>" and t2: "trace w' = trace w1 @ evs2"
      and a2: "case r' of Inr y \<Rightarrow> actions evs2 = b (id' s1)
               | Inl e \<Rightarrow> prefix (actions evs2) (b (id' s1))"
      by blast
    from s1 have id1: "id' s1 = id' self"
      by (metis Sdm.select_convs(1) Sdm.surjective Sdm.update_convs(2))
    from s1 s2 have s2': "self' = self\<lparr>last_query := last_query self'\<rparr>"
      by (metis Sdm.update_convs(2) Sdm.surjective)
    from t1 t2 have t: "trace w' = trace w @ (evs1 @ evs2)" by simp
    from a1 Inr have a1': "actions evs1 = a (id' self)" by simp
    show ?thesis
      using s2' t a1' a2 id1
      by (cases r') (auto intro!: exI[of _ "evs1 @ evs2"])
  qed
qed


lemma performs_Sdm630_72_get_counter_state:
  "performs Sdm630_72_get_counter_state (\<lambda>u.
     [Arm, Read (Input 0x0C (Multiple (replicate 3 FLOAT_32)) u),
      Arm, Read (Input 0x0048 (Single FLOAT_32) u),
      Arm, Read (Input 0x004a (Single FLOAT_32) u),
      Arm, Read (Input 0x00 (Multiple (replicate 3 FLOAT_32)) u),
      Arm, Read (Input 0x06 (Multiple (replicate 3 FLOAT_32)) u),
      Arm, Read (Input 0x1E (Multiple (replicate 3 FLOAT_32)) u),
      Arm, Read (Input 0x46 (Single FLOAT_32) u),
      Check])"
proof -
  have "performs Sdm630_72_get_counter_state (\<lambda>u.
     [Arm, Read (Input 0x0C (Multiple (replicate 3 FLOAT_32)) u)] @
     [Arm, Read (Input 0x0048 (Single FLOAT_32) u)] @
     [Arm, Read (Input 0x004a (Single FLOAT_32) u)] @
     [Arm, Read (Input 0x00 (Multiple (replicate 3 FLOAT_32)) u)] @
     [Arm, Read (Input 0x06 (Multiple (replicate 3 FLOAT_32)) u)] @
     [Arm, Read (Input 0x1E (Multiple (replicate 3 FLOAT_32)) u)] @
     [Arm, Read (Input 0x46 (Single FLOAT_32) u)] @ [] @ [Check])"
    unfolding Sdm630_72_get_counter_state_def
    by (intro performs_and_then performs_case_prod performs_Sdm630_72_get_power
        performs_get_imported performs_get_exported performs_Sdm630_72_get_voltages
        performs_Sdm630_72_get_currents performs_Sdm630_72_get_power_factors
        performs_get_frequency performs_get_serial_number performs_check)
  then show ?thesis by simp
qed

lemma performs_Sdm120_get_counter_state:
  "performs Sdm120_get_counter_state (\<lambda>u.
     [Arm, Read (Input 0x0C (Single FLOAT_32) u),
      Arm, Read (Input 0x0048 (Single FLOAT_32) u),
      Arm, Read (Input 0x004a (Single FLOAT_32) u),
      Arm, Read (Input 0x06 (Single FLOAT_32) u),
      Arm, Read (Input 0x46 (Single FLOAT_32) u),
      Check])"
proof -
  have "performs Sdm120_get_counter_state (\<lambda>u.
     [Arm, Read (Input 0x0C (Single FLOAT_32) u)] @
     [Arm, Read (Input 0x0048 (Single FLOAT_32) u)] @
     [Arm, Read (Input 0x004a (Single FLOAT_32) u)] @
     [Arm, Read (Input 0x06 (Single FLOAT_32) u)] @
     [Arm, Read (Input 0x46 (Single FLOAT_32) u)] @ [] @ [Check])"
    unfolding Sdm120_get_counter_state_def
    by (intro performs_and_then performs_case_prod performs_Sdm120_get_power
        performs_get_imported performs_get_exported performs_Sdm120_get_currents
        performs_get_frequency performs_get_serial_number performs_check)
  then show ?thesis by simp
qed

subsection \<open>The snapshot that is returned is the one that was checked\<close>

lemma performs_frame:
  assumes "performs m a" and "m (self, w) = (r, self', w')"
  shows "\<exists>t. self' = self\<lparr>last_query := t\<rparr>"
  using performsD(1)[OF assms] by (rule exI)

lemma and_then_step:
  assumes p: "performs m a" and run: "and_then m f (self, w) = (Inr y, self', w')"
  obtains x t w1 where "f x (self\<lparr>last_query := t\<rparr>, w1) = (Inr y, self', w')"
proof -
  obtain r s1 w1 where m: "m (self, w) = (r, s1, w1)" by (cases "m (self, w)") auto
  from performs_frame[OF p m] obtain t where s1: "s1 = self\<lparr>last_query := t\<rparr>" by blast
  from run m obtain x where "r = Inr x" and "f x (s1, w1) = (Inr y, self', w')"
    by (cases r) (auto simp: and_then_def)
  with s1 that show thesis by blast
qed

lemma Sdm630_72_checked_last:
  assumes "Sdm630_72_get_counter_state (self, w) = (Inr cs, self', w')"
  shows "\<exists>evs. trace w' = evs @ [MeterValuesChecked cs (Sdm630_72.fault_state self)]"
  using assms unfolding Sdm630_72_get_counter_state_def
  apply (elim and_then_step[OF performs_Sdm630_72_get_power])
  apply (simp only: split_beta)
  apply (elim and_then_step[OF performs_get_imported])
  apply (elim and_then_step[OF performs_get_exported])
  apply (elim and_then_step[OF performs_Sdm630_72_get_voltages])
  apply (elim and_then_step[OF performs_Sdm630_72_get_currents])
  apply (elim and_then_step[OF performs_Sdm630_72_get_power_factors])
  apply (elim and_then_step[OF performs_get_frequency])
  apply (elim and_then_step[OF performs_get_serial_number])
  apply (auto simp: Let_def check_meter_values_def emit_def)
  done

lemma Sdm120_checked_last:
  assumes "Sdm120_get_counter_state (self, w) = (Inr cs, self', w')"
  shows "(\<exists>evs. trace w' = evs @ [MeterValuesChecked cs (Sdm120.fault_state self)]) \<and>
     voltages cs = None \<and> power_factors cs = None"
  using assms unfolding Sdm120_get_counter_state_def
  apply (elim and_then_step[OF performs_Sdm120_get_power])
  apply (simp only: split_beta)
  apply (elim and_then_step[OF performs_get_imported])
  apply (elim and_then_step[OF performs_get_exported])
  apply (elim and_then_step[OF performs_Sdm120_get_currents])
  apply (elim and_then_step[OF performs_get_frequency])
  apply (elim and_then_step[OF performs_get_serial_number])
  apply (auto simp: Let_def check_meter_values_def emit_def)
  done

lemma checked_split:
  assumes t: "trace w' = trace w @ evs" and a: "actions evs = acts @ [Check]"
    and l: "trace w' = pre @ [MeterValuesChecked cs fs]"
  shows "\<exists>evs'. new_events w w' = evs' @ [MeterValuesChecked cs fs] \<and> actions evs' = acts"
proof -
  from a have ne: "evs \<noteq> []" by auto
  with t l have last: "last evs = MeterValuesChecked cs fs" by (metis last_appendR last_snoc)
  from ne last have evs: "evs = butlast evs @ [MeterValuesChecked cs fs]"
    by (metis append_butlast_last_id)
  have "actions evs = actions (butlast evs) @ [Check]"
    by (subst evs) simp
  with a have "actions (butlast evs) = acts" by simp
  with evs new_events_append[OF t] show ?thesis by metis
qed


subsection \<open>The loop over the components\<close>

lemma update_each_effect:
  "fst (update_each cs w) = Inr () \<and>
   trace (snd (update_each cs w)) = trace w @ map ComponentUpdated cs \<and>
   faults (snd (update_each cs w)) =
     fold (\<lambda>c f. f(SunnyIslandBat.fault_state c := raises c)) cs (faults w)"
proof (induction cs arbitrary: w)
  case Nil
  show ?case by simp
next
  case (Cons c cs)
  obtain w1 where s: "SingleComponentUpdateContext (SunnyIslandBat.fault_state c)
        (SunnyIslandBat_update c) w = (Inr (), w1)"
    and t: "trace w1 = trace w @ [ComponentUpdated c]"
    and f: "faults w1 = (faults w)(SunnyIslandBat.fault_state c := raises c)"
    by (cases "raises c")
      (auto simp: SingleComponentUpdateContext_def SunnyIslandBat_update_def emit_def)
  from s have "update_each (c # cs) w = update_each cs w1" by simp
  with Cons.IH[of w1] t f show ?case by simp
qed

lemma fold_update_other:
  "x \<notin> k ` set cs \<Longrightarrow> fold (\<lambda>c f. f(k c := v c)) cs g x = g x"
  by (induction cs arbitrary: g) auto

lemma fold_update_distinct:
  "distinct (map k cs) \<Longrightarrow> c \<in> set cs \<Longrightarrow> fold (\<lambda>c f. f(k c := v c)) cs g (k c) = v c"
proof (induction cs arbitrary: g)
  case Nil
  then show ?case by simp
next
  case (Cons d cs)
  show ?case
  proof (cases "c = d")
    case True
    with Cons.prems have "k d \<notin> k ` set cs" by auto
    then have "fold (\<lambda>c f. f(k c := v c)) cs (g(k d := v d)) (k d) = (g(k d := v d)) (k d)"
      by (rule fold_update_other)
    with True show ?thesis by (simp only: fold.simps o_apply fun_upd_same)
  next
    case False
    with Cons show ?thesis by auto
  qed
qed


section \<open>The rate limiter\<close>

text \<open>
  C1. The claim: between any two consecutive register reads of one driver at least
  \<open>WAIT_MS_BETWEEN_QUERIES\<close> = 100 ms pass. The code does not keep it. A three-phase
  driver is constructed at time 0 on a bus that answers after 10 ms, and a snapshot is
  taken at once. The reads are issued at 0, 100, 110, 210, 220, 320, 330 and 430 ms:
  every second pair of rate-limited reads is 10 ms apart. The limiter stores the time it
  read before it slept, so the next call sees 100 ms gone by and does not wait.
\<close>

theorem C1_reads_10_ms_apart:
  "fst (poll_three_phase (start_world three_phase_bus)) = Inr three_phase_snapshot \<and>
   read_times (trace (snd (poll_three_phase (start_world three_phase_bus)))) =
     [0, 100000000, 110000000, 210000000, 220000000, 320000000, 330000000, 430000000] \<and>
   gaps (read_times (trace (snd (poll_three_phase (start_world three_phase_bus))))) =
     [100000000, 10000000, 100000000, 10000000, 100000000, 10000000, 100000000]"
  by (simp add: poll_three_phase_def start_world_def three_phase_bus_def
      three_phase_snapshot_def run_simps)

text \<open>
  C2. The claim: on return \<open>last_query\<close> is the time at which the wait ended. The code
  does not do that. Called at 10 ms with \<open>last_query = 0\<close>, the limiter sleeps for the
  missing 90 ms and returns at 100 ms, with \<open>last_query = 10\<close>: the time read on entry.
\<close>

theorem C2_last_query_is_entry_time:
  "last_query (fst (ensure_min_time_between_queries
      (three_phase_meter, (start_world [])\<lparr>time_ns := 10000000\<rparr>))) = 10 \<and>
   get_time_ms (snd (ensure_min_time_between_queries
      (three_phase_meter, (start_world [])\<lparr>time_ns := 10000000\<rparr>))) = 100 \<and>
   trace (snd (ensure_min_time_between_queries
      (three_phase_meter, (start_world [])\<lparr>time_ns := 10000000\<rparr>))) =
     [Slept 10000000 90000000, LimiterArmed 10]"
  by (simp add: three_phase_meter_def start_world_def run_simps)


section \<open>The update cycle of the device\<close>

text \<open>
  C3. For every list of components, whichever of them fail: once \<open>initializer\<close> has run,
  \<open>update_components\<close> returns normally; the session is opened once, then every
  component is updated, in the order of the list, then the session is closed once;
  each fault state holds what the last update of a component that owns it gave; and
  where no two components share a fault state, every component's fault state holds the
  error of that component's update, or no error if it completed.
\<close>

theorem C3_update_components:
  "fst (update_components (initializer ip_address port client) components w) = Inr () \<and>
   trace (snd (update_components (initializer ip_address port client) components w)) =
     trace w @ [SessionOpened] @ map ComponentUpdated components @ [SessionClosed] \<and>
   faults (snd (update_components (initializer ip_address port client) components w)) =
     fold (\<lambda>c f. f(SunnyIslandBat.fault_state c := raises c)) components (faults w) \<and>
   (distinct (map SunnyIslandBat.fault_state components) \<longrightarrow>
      (\<forall>c \<in> set components.
         faults (snd (update_components (initializer ip_address port client) components w))
           (SunnyIslandBat.fault_state c) = raises c))"
proof -
  let ?w1 = "emit SessionOpened w"
  have run: "update_components (initializer ip_address port client) components w =
      (fst (update_each components ?w1), emit SessionClosed (snd (update_each components ?w1)))"
    by (simp add: update_components_def initializer_def with_client_def split_beta)
  note e = update_each_effect[of components ?w1]
  have f: "faults (snd (update_components (initializer ip_address port client) components w)) =
     fold (\<lambda>c f. f(SunnyIslandBat.fault_state c := raises c)) components (faults w)"
    using e by (simp add: run emit_def)
  have "fst (update_components (initializer ip_address port client) components w) = Inr ()"
    using e by (simp add: run)
  moreover have "trace (snd (update_components (initializer ip_address port client) components w)) =
     trace w @ [SessionOpened] @ map ComponentUpdated components @ [SessionClosed]"
    using e by (simp add: run emit_def)
  moreover have "distinct (map SunnyIslandBat.fault_state components) \<longrightarrow>
      (\<forall>c \<in> set components.
         faults (snd (update_components (initializer ip_address port client) components w))
           (SunnyIslandBat.fault_state c) = raises c)"
    unfolding f by (auto simp: fold_update_distinct)
  ultimately show ?thesis using f by blast
qed

text \<open>
  C3, an instance: the first component fails and the second completes. Both are updated
  inside one session, the first fault state holds the error and the second holds none.
\<close>

theorem C3_update_components_witness:
  "distinct (map SunnyIslandBat.fault_state [failing_bat, working_bat]) \<and>
   trace (snd (update_components (initializer ''192.168.0.2'' 502 None)
            [failing_bat, working_bat] (start_world []))) =
     [SessionOpened, ComponentUpdated failing_bat, ComponentUpdated working_bat, SessionClosed] \<and>
   faults (snd (update_components (initializer ''192.168.0.2'' 502 None)
            [failing_bat, working_bat] (start_world []))) 1 = Some TransportError \<and>
   faults (snd (update_components (initializer ''192.168.0.2'' 502 None)
            [failing_bat, working_bat] (start_world []))) 2 = None"
proof -
  have d: "distinct (map SunnyIslandBat.fault_state [failing_bat, working_bat])"
    by (simp add: failing_bat_def working_bat_def)
  from C3_update_components[of "''192.168.0.2''" 502 None "[failing_bat, working_bat]"
      "start_world []"] d
  show ?thesis by (simp add: failing_bat_def working_bat_def start_world_def)
qed


section \<open>The snapshot of the three-phase variant\<close>





section \<open>The accessors\<close>





text \<open>
  C7. When the register read returns a value \<open>v\<close>, each vector-valued accessor of the
  single-phase variant returns a list of exactly three elements: \<open>v\<close>, then two zeros.
  In \<open>get_currents\<close>, \<open>get_voltages\<close> and \<open>get_power_factors\<close> the zeros are the float
  \<open>0.0\<close>; in \<open>get_power\<close> they are the int \<open>0\<close>, which Python's \<open>==\<close> takes as equal
  to \<open>0.0\<close>.
\<close>

theorem C7_single_phase_vectors:
  assumes "bus w = Reply latency (Inr v) # rest"
  shows "fst (Sdm120_get_power (self, w)) = Inr (PyList [v, PyInt 0, PyInt 0], v) \<and>
         fst (Sdm120_get_currents (self, w)) = Inr (PyList [v, PyFloat 0, PyFloat 0]) \<and>
         fst (Sdm120_get_voltages (self, w)) = Inr (PyList [v, PyFloat 0, PyFloat 0]) \<and>
         fst (Sdm120_get_power_factors (self, w)) = Inr (PyList [v, PyFloat 0, PyFloat 0]) \<and>
         py_eq (PyInt 0) (PyFloat 0)"
  using assms
  by (auto simp: Let_def read_input_registers_def client_read_def emit_def time_sleep_def)

text \<open>C7, an instance: the reading 230.\<close>

theorem C7_single_phase_vectors_witness:
  "fst (Sdm120_get_power (single_phase_meter, start_world [Reply 0 (Inr (PyFloat 230))])) =
     Inr (PyList [PyFloat 230, PyInt 0, PyInt 0], PyFloat 230) \<and>
   fst (Sdm120_get_currents (single_phase_meter, start_world [Reply 0 (Inr (PyFloat 230))])) =
     Inr (PyList [PyFloat 230, PyFloat 0, PyFloat 0]) \<and>
   fst (Sdm120_get_voltages (single_phase_meter, start_world [Reply 0 (Inr (PyFloat 230))])) =
     Inr (PyList [PyFloat 230, PyFloat 0, PyFloat 0]) \<and>
   fst (Sdm120_get_power_factors (single_phase_meter, start_world [Reply 0 (Inr (PyFloat 230))])) =
     Inr (PyList [PyFloat 230, PyFloat 0, PyFloat 0])"
  using C7_single_phase_vectors[of "start_world [Reply 0 (Inr (PyFloat 230))]" 0
      "PyFloat 230" "[]" single_phase_meter]
  by (simp add: start_world_def)


section \<open>Construction\<close>

text \<open>
  C8. Constructing a driver adds exactly three events to the trace: the session is
  opened, the holding register \<open>0xFC00\<close> is read as \<open>UINT_32\<close> with the driver's unit,
  and the session is closed; so there is one holding-register read and no
  input-register read, whether the read returns or raises. The constructors of the two
  variants do the same to the world. A driver that was constructed holds the string of
  the value that was read, and \<open>get_serial_number\<close> returns the stored string and
  leaves the object and the world as they are.
\<close>

theorem C8_construction:
  "trace (snd (Sdm_init str modbus_id w)) =
     trace w @ [SessionOpened,
                RegisterRead (time_ns w) (Holding 0xFC00 (Single UINT_32) modbus_id),
                SessionClosed] \<and>
   (\<forall>self. fst (Sdm_init str modbus_id w) = Inr self \<longrightarrow>
      (\<exists>latency v rest. bus w = Reply latency (Inr v) # rest \<and>
         Sdm.serial_number self = str v)) \<and>
   snd (Sdm630_72_init str modbus_id fs w) = snd (Sdm_init str modbus_id w) \<and>
   snd (Sdm120_init str modbus_id fs w) = snd (Sdm_init str modbus_id w) \<and>
   (\<forall>self. fst (Sdm630_72_init str modbus_id fs w) = Inr self \<longrightarrow>
      (\<exists>base. fst (Sdm_init str modbus_id w) = Inr base \<and>
         Sdm.serial_number self = Sdm.serial_number base)) \<and>
   (\<forall>self. fst (Sdm120_init str modbus_id fs w) = Inr self \<longrightarrow>
      (\<exists>base. fst (Sdm_init str modbus_id w) = Inr base \<and>
         Sdm.serial_number self = Sdm.serial_number base)) \<and>
   get_serial_number (meter, w) = (Inr (Sdm.serial_number meter), meter, w)"
  by (auto simp: Sdm_init_def Sdm630_72_init_def Sdm120_init_def with_client_def Let_def
      read_holding_registers_def client_read_def emit_def Sdm.extend_def
      Sdm630_72.fields_def Sdm120.fields_def
      split: list.splits reply.splits sum.splits prod.splits)

text \<open>C8, an instance: a driver constructed on a bus that answers with a serial number.\<close>

theorem C8_construction_witness:
  "fst (Sdm_init (\<lambda>v. ''4711'') 1 (start_world three_phase_bus)) =
     Inr \<lparr>id' = 1, last_query = 0, WAIT_MS_BETWEEN_QUERIES = 100, serial_number = ''4711''\<rparr> \<and>
   fst (Sdm630_72_init (\<lambda>v. ''4711'') 1 7 (start_world three_phase_bus)) =
     Inr three_phase_meter \<and>
   fst (Sdm120_init (\<lambda>v. ''4711'') 1 7 (start_world three_phase_bus)) =
     Inr single_phase_meter \<and>
   trace (snd (Sdm_init (\<lambda>v. ''4711'') 1 (start_world three_phase_bus))) =
     [SessionOpened, RegisterRead 0 (Holding 0xFC00 (Single UINT_32) 1), SessionClosed] \<and>
   trace (snd (Sdm630_72_init (\<lambda>v. ''4711'') 1 7 (start_world three_phase_bus))) =
     [SessionOpened, RegisterRead 0 (Holding 0xFC00 (Single UINT_32) 1), SessionClosed] \<and>
   trace (snd (Sdm120_init (\<lambda>v. ''4711'') 1 7 (start_world three_phase_bus))) =
     [SessionOpened, RegisterRead 0 (Holding 0xFC00 (Single UINT_32) 1), SessionClosed]"
  using C8_construction[of "\<lambda>v. ''4711''" 1 "start_world three_phase_bus" 7]
  by (simp add: start_world_def three_phase_bus_def three_phase_meter_def single_phase_meter_def
      run_simps)


section \<open>The fault sink\<close>

text \<open>
  C9. When \<open>get_counter_state\<close> of either variant returns a snapshot, the last thing it
  did was to call \<open>check_meter_values\<close> with that snapshot and the fault state of the
  driver; everything before that call was the register reads of the variant, so the
  call happened once, after all reads.
\<close>

theorem C9_check_meter_values:
  "(fst (Sdm630_72_get_counter_state (self, w)) = Inr cs \<longrightarrow>
      (\<exists>evs. trace (snd (snd (Sdm630_72_get_counter_state (self, w)))) =
           trace w @ evs @ [MeterValuesChecked cs (Sdm630_72.fault_state self)] \<and>
         actions evs =
           [Arm, Read (Input 0x0C (Multiple (replicate 3 FLOAT_32)) (id' self)),
            Arm, Read (Input 0x0048 (Single FLOAT_32) (id' self)),
            Arm, Read (Input 0x004a (Single FLOAT_32) (id' self)),
            Arm, Read (Input 0x00 (Multiple (replicate 3 FLOAT_32)) (id' self)),
            Arm, Read (Input 0x06 (Multiple (replicate 3 FLOAT_32)) (id' self)),
            Arm, Read (Input 0x1E (Multiple (replicate 3 FLOAT_32)) (id' self)),
            Arm, Read (Input 0x46 (Single FLOAT_32) (id' self))])) \<and>
   (fst (Sdm120_get_counter_state (meter, v)) = Inr ds \<longrightarrow>
      (\<exists>evs. trace (snd (snd (Sdm120_get_counter_state (meter, v)))) =
           trace v @ evs @ [MeterValuesChecked ds (Sdm120.fault_state meter)] \<and>
         actions evs =
           [Arm, Read (Input 0x0C (Single FLOAT_32) (id' meter)),
            Arm, Read (Input 0x0048 (Single FLOAT_32) (id' meter)),
            Arm, Read (Input 0x004a (Single FLOAT_32) (id' meter)),
            Arm, Read (Input 0x06 (Single FLOAT_32) (id' meter)),
            Arm, Read (Input 0x46 (Single FLOAT_32) (id' meter))]))"
proof (intro conjI impI)
  assume "fst (Sdm630_72_get_counter_state (self, w)) = Inr cs"
  then obtain self' w' where run: "Sdm630_72_get_counter_state (self, w) = (Inr cs, self', w')"
    by (cases "Sdm630_72_get_counter_state (self, w)") auto
  from performsD(2)[OF performs_Sdm630_72_get_counter_state run] obtain evs where
    t: "trace w' = trace w @ evs" and a: "actions evs =
           [Arm, Read (Input 0x0C (Multiple (replicate 3 FLOAT_32)) (id' self)),
            Arm, Read (Input 0x0048 (Single FLOAT_32) (id' self)),
            Arm, Read (Input 0x004a (Single FLOAT_32) (id' self)),
            Arm, Read (Input 0x00 (Multiple (replicate 3 FLOAT_32)) (id' self)),
            Arm, Read (Input 0x06 (Multiple (replicate 3 FLOAT_32)) (id' self)),
            Arm, Read (Input 0x1E (Multiple (replicate 3 FLOAT_32)) (id' self)),
            Arm, Read (Input 0x46 (Single FLOAT_32) (id' self))] @ [Check]"
    by auto
  from Sdm630_72_checked_last[OF run] obtain pre where
    "trace w' = pre @ [MeterValuesChecked cs (Sdm630_72.fault_state self)]" by blast
  from checked_split[OF t a this] obtain evs' where
    "new_events w w' = evs' @ [MeterValuesChecked cs (Sdm630_72.fault_state self)]" and
    "actions evs' =
           [Arm, Read (Input 0x0C (Multiple (replicate 3 FLOAT_32)) (id' self)),
            Arm, Read (Input 0x0048 (Single FLOAT_32) (id' self)),
            Arm, Read (Input 0x004a (Single FLOAT_32) (id' self)),
            Arm, Read (Input 0x00 (Multiple (replicate 3 FLOAT_32)) (id' self)),
            Arm, Read (Input 0x06 (Multiple (replicate 3 FLOAT_32)) (id' self)),
            Arm, Read (Input 0x1E (Multiple (replicate 3 FLOAT_32)) (id' self)),
            Arm, Read (Input 0x46 (Single FLOAT_32) (id' self))]"
    by blast
  with t new_events_append[OF t] run
  show "\<exists>evs. trace (snd (snd (Sdm630_72_get_counter_state (self, w)))) =
           trace w @ evs @ [MeterValuesChecked cs (Sdm630_72.fault_state self)] \<and>
         actions evs =
           [Arm, Read (Input 0x0C (Multiple (replicate 3 FLOAT_32)) (id' self)),
            Arm, Read (Input 0x0048 (Single FLOAT_32) (id' self)),
            Arm, Read (Input 0x004a (Single FLOAT_32) (id' self)),
            Arm, Read (Input 0x00 (Multiple (replicate 3 FLOAT_32)) (id' self)),
            Arm, Read (Input 0x06 (Multiple (replicate 3 FLOAT_32)) (id' self)),
            Arm, Read (Input 0x1E (Multiple (replicate 3 FLOAT_32)) (id' self)),
            Arm, Read (Input 0x46 (Single FLOAT_32) (id' self))]"
    by (intro exI[of _ evs']) simp
next
  assume "fst (Sdm120_get_counter_state (meter, v)) = Inr ds"
  then obtain meter' v' where run: "Sdm120_get_counter_state (meter, v) = (Inr ds, meter', v')"
    by (cases "Sdm120_get_counter_state (meter, v)") auto
  from performsD(2)[OF performs_Sdm120_get_counter_state run] obtain evs where
    t: "trace v' = trace v @ evs" and a: "actions evs =
           [Arm, Read (Input 0x0C (Single FLOAT_32) (id' meter)),
            Arm, Read (Input 0x0048 (Single FLOAT_32) (id' meter)),
            Arm, Read (Input 0x004a (Single FLOAT_32) (id' meter)),
            Arm, Read (Input 0x06 (Single FLOAT_32) (id' meter)),
            Arm, Read (Input 0x46 (Single FLOAT_32) (id' meter))] @ [Check]"
    by auto
  from Sdm120_checked_last[OF run] obtain pre where
    "trace v' = pre @ [MeterValuesChecked ds (Sdm120.fault_state meter)]" by blast
  from checked_split[OF t a this] obtain evs' where
    "new_events v v' = evs' @ [MeterValuesChecked ds (Sdm120.fault_state meter)]" and
    "actions evs' =
           [Arm, Read (Input 0x0C (Single FLOAT_32) (id' meter)),
            Arm, Read (Input 0x0048 (Single FLOAT_32) (id' meter)),
            Arm, Read (Input 0x004a (Single FLOAT_32) (id' meter)),
            Arm, Read (Input 0x06 (Single FLOAT_32) (id' meter)),
            Arm, Read (Input 0x46 (Single FLOAT_32) (id' meter))]"
    by blast
  with t new_events_append[OF t] run
  show "\<exists>evs. trace (snd (snd (Sdm120_get_counter_state (meter, v)))) =
           trace v @ evs @ [MeterValuesChecked ds (Sdm120.fault_state meter)] \<and>
         actions evs =
           [Arm, Read (Input 0x0C (Single FLOAT_32) (id' meter)),
            Arm, Read (Input 0x0048 (Single FLOAT_32) (id' meter)),
            Arm, Read (Input 0x004a (Single FLOAT_32) (id' meter)),
            Arm, Read (Input 0x06 (Single FLOAT_32) (id' meter)),
            Arm, Read (Input 0x46 (Single FLOAT_32) (id' meter))]"
    by (intro exI[of _ evs']) simp
qed

text \<open>C9, an instance for each variant: a snapshot is returned, and it was checked last.\<close>

theorem C9_check_meter_values_witness:
  "fst (Sdm630_72_get_counter_state (three_phase_meter, start_world (tl three_phase_bus))) =
     Inr three_phase_snapshot \<and>
   fst (Sdm120_get_counter_state (single_phase_meter, start_world single_phase_bus)) =
     Inr single_phase_snapshot \<and>
   (\<exists>evs. trace (snd (snd (Sdm630_72_get_counter_state
              (three_phase_meter, start_world (tl three_phase_bus))))) =
      trace (start_world (tl three_phase_bus)) @ evs @
        [MeterValuesChecked three_phase_snapshot (Sdm630_72.fault_state three_phase_meter)]) \<and>
   (\<exists>evs. trace (snd (snd (Sdm120_get_counter_state
              (single_phase_meter, start_world single_phase_bus)))) =
      trace (start_world single_phase_bus) @ evs @
        [MeterValuesChecked single_phase_snapshot (Sdm120.fault_state single_phase_meter)])"
proof -
  have h3: "fst (Sdm630_72_get_counter_state (three_phase_meter, start_world (tl three_phase_bus))) =
     Inr three_phase_snapshot"
    by (simp add: three_phase_meter_def start_world_def three_phase_bus_def
        three_phase_snapshot_def run_simps)
  have h1: "fst (Sdm120_get_counter_state (single_phase_meter, start_world single_phase_bus)) =
     Inr single_phase_snapshot"
    by (simp add: single_phase_meter_def start_world_def single_phase_bus_def
        single_phase_snapshot_def run_simps)
  from C9_check_meter_values[of three_phase_meter "start_world (tl three_phase_bus)"
      three_phase_snapshot single_phase_meter "start_world single_phase_bus" single_phase_snapshot]
    h3 h1
  show ?thesis by blast
qed


section \<open>The snapshot of the single-phase variant\<close>




end
